theory Spec2Isabelle
  imports Main
begin

section \<open>LifeStream: the organ-allocation endpoints of the Express server\<close>

text \<open>
  The server keeps four SQLite tables (users, organs, organ_requests, matches) and serves
  them through synchronous route handlers (better-sqlite3 is a synchronous driver and no
  handler body contains an await after the database is open). Every handler therefore runs
  to completion before the next request is looked at, and is modelled as one function from
  the database to a response and the new database.

  Columns are modelled at the types the TypeScript interfaces give them: identifiers are
  integers, every other column is a string; \<open>admin_note\<close> has no default and starts NULL, so
  it is an optional string. Rows are kept in insertion order. A route parameter such as
  \<open>:requestId\<close> arrives as text and is compared with an INTEGER column, so it stands for
  the integer it denotes. The authentication and role middlewares in front of the handlers
  are not modelled: \<open>req.user.id\<close> is a parameter.
  Only the SQLite backend is modelled, not the mock fallback used when the driver fails to load.
  The tables are the ones the server creates itself at start-up: they carry no foreign key
  and no constraint but the uniqueness of usernames. A database file that was created
  beforehand with other table definitions is not modelled.
\<close>

subsection \<open>Tables\<close>

record user =
  u_id :: int
  username :: string
  password :: string
  u_name :: string
  age :: int
  gender :: string
  u_blood_group :: string
  contact :: string
  u_role :: string

record organ =
  o_id :: int
  o_organ_type :: string
  o_blood_group :: string
  o_donor_id :: int
  availability_status :: string
  date_added :: string

record organ_request =
  r_id :: int
  r_recipient_id :: int
  r_organ_type :: string
  r_blood_group :: string
  urgency_level :: string
  r_status :: string
  date_requested :: string
  admin_note :: "string option"

text \<open>The columns of \<open>matches\<close> that the allocation fills from the request body can be
  NULL, because the body can carry \<open>null\<close>.\<close>

record match =
  m_id :: int
  m_donor_id :: "int option"
  m_recipient_id :: "int option"
  m_organ_id :: "int option"
  m_request_id :: "int option"
  m_organ_type :: "string option"
  matched_on :: string
  m_status :: string

text \<open>
  Every \<open>id\<close> column is INTEGER PRIMARY KEY AUTOINCREMENT: SQLite remembers per table the
  largest rowid ever handed out and gives a new row that value plus one. The handlers never
  insert an explicit id, so the remembered value is a plain counter.
\<close>

record db =
  users :: "user list"
  organs :: "organ list"
  organ_requests :: "organ_request list"
  matches :: "match list"
  users_seq :: int
  organs_seq :: int
  organ_requests_seq :: int
  matches_seq :: int

datatype error = NotFound | BadRequest | TypeError | BindError

subsection \<open>Intake: POST /auth/register, POST /organs, POST /requests\<close>

record register_body =
  rb_username :: string
  rb_hashedPassword :: string
  rb_name :: string
  rb_age :: int
  rb_gender :: string
  rb_blood_group :: string
  rb_contact :: string
  rb_role :: string

text \<open>The only constraint of the schema is \<open>username TEXT UNIQUE\<close>; its violation is caught
  and answered with status 400.\<close>

definition register :: "register_body \<Rightarrow> db \<Rightarrow> (error + int) \<times> db" where
  "register b s =
     (if \<exists>u \<in> set (users s). username u = rb_username b then (Inl BadRequest, s)
      else
        let i = users_seq s + 1 in
        (Inr i,
         s\<lparr>users := users s @
              [\<lparr>u_id = i, username = rb_username b, password = rb_hashedPassword b,
                u_name = rb_name b, age = rb_age b, gender = rb_gender b,
                u_blood_group = rb_blood_group b, contact = rb_contact b, u_role = rb_role b\<rparr>],
            users_seq := i\<rparr>))"

text \<open>\<open>INSERT INTO organs (organ_type, blood_group, donor_id) VALUES (?, ?, ?)\<close>: the status
  column takes its default \<open>'AVAILABLE'\<close>, the date column the current time.\<close>

definition post_organs :: "int \<Rightarrow> string \<Rightarrow> string \<Rightarrow> string \<Rightarrow> db \<Rightarrow> int \<times> db" where
  "post_organs uid organ_type blood_group now s =
     (let i = organs_seq s + 1 in
      (i,
       s\<lparr>organs := organs s @
            [\<lparr>o_id = i, o_organ_type = organ_type, o_blood_group = blood_group,
              o_donor_id = uid, availability_status = ''AVAILABLE'', date_added = now\<rparr>],
          organs_seq := i\<rparr>))"

definition post_requests ::
  "int \<Rightarrow> string \<Rightarrow> string \<Rightarrow> string \<Rightarrow> string \<Rightarrow> db \<Rightarrow> int \<times> db" where
  "post_requests uid organ_type blood_group urgency now s =
     (let i = organ_requests_seq s + 1 in
      (i,
       s\<lparr>organ_requests := organ_requests s @
            [\<lparr>r_id = i, r_recipient_id = uid, r_organ_type = organ_type,
              r_blood_group = blood_group, urgency_level = urgency, r_status = ''PENDING'',
              date_requested = now, admin_note = None\<rparr>],
          organ_requests_seq := i\<rparr>))"

subsection \<open>POST /admin/requests/:id/status\<close>

text \<open>\<open>UPDATE organ_requests SET status = ?, admin_note = ? WHERE id = ?\<close> with the status and
  the note taken from the request body as they are.\<close>

definition post_request_status :: "int \<Rightarrow> string \<Rightarrow> string option \<Rightarrow> db \<Rightarrow> db" where
  "post_request_status rid status note s =
     s\<lparr>organ_requests :=
         map (\<lambda>r. if r_id r = rid then r\<lparr>r_status := status, admin_note := note\<rparr> else r)
             (organ_requests s)\<rparr>"

subsection \<open>GET /admin/matches/suggest/:requestId\<close>

text \<open>
  \<open>bloodCompatibility\<close> is an object literal, and \<open>bloodCompatibility[key]\<close> is an ordinary
  JavaScript property read: it finds the eight own properties, and for any other key it goes
  on to the prototype of every object literal, \<open>Object.prototype\<close>, whose members are listed
  in \<open>Object_prototype\<close>. Such a member is a function (or, for \<open>__proto__\<close>, the prototype
  object itself): a truthy value, so \<open>|| []\<close> keeps it, and one that has no \<open>includes\<close>
  method, so the call on the next line throws a TypeError.
\<close>

datatype js_value = StringArray "string list" | Undefined | InheritedMember

definition bloodCompatibility :: "(string \<times> string list) list" where
  "bloodCompatibility =
     [(''O-'', [''O-'', ''O+'', ''A-'', ''A+'', ''B-'', ''B+'', ''AB-'', ''AB+'']),
      (''O+'', [''O+'', ''A+'', ''B+'', ''AB+'']),
      (''A-'', [''A-'', ''A+'', ''AB-'', ''AB+'']),
      (''A+'', [''A+'', ''AB+'']),
      (''B-'', [''B-'', ''B+'', ''AB-'', ''AB+'']),
      (''B+'', [''B+'', ''AB+'']),
      (''AB-'', [''AB-'', ''AB+'']),
      (''AB+'', [''AB+''])]"

definition Object_prototype :: "string list" where
  "Object_prototype =
     [''constructor'', ''__proto__'', ''hasOwnProperty'', ''isPrototypeOf'',
      ''propertyIsEnumerable'', ''toLocaleString'', ''toString'', ''valueOf'',
      ''__defineGetter__'', ''__defineSetter__'', ''__lookupGetter__'', ''__lookupSetter__'']"

definition get_property :: "string \<Rightarrow> js_value" where
  "get_property key =
     (case map_of bloodCompatibility key of
        Some groups \<Rightarrow> StringArray groups
      | None \<Rightarrow> if key \<in> set Object_prototype then InheritedMember else Undefined)"

text \<open>\<open>const compatibleRecipients = bloodCompatibility[organ.donor_blood_group] || []\<close>\<close>

definition compatibleRecipients :: "string \<Rightarrow> js_value" where
  "compatibleRecipients donor_blood_group =
     (case get_property donor_blood_group of
        Undefined \<Rightarrow> StringArray []
      | v \<Rightarrow> v)"

definition array_includes :: "js_value \<Rightarrow> string \<Rightarrow> error + bool" where
  "array_includes v x = (case v of StringArray xs \<Rightarrow> Inr (x \<in> set xs) | _ \<Rightarrow> Inl TypeError)"

text \<open>\<open>Array.prototype.filter\<close> with a callback that may throw: the elements are visited in
  order and the first exception leaves the whole call.\<close>

fun filter_throwing :: "('a \<Rightarrow> error + bool) \<Rightarrow> 'a list \<Rightarrow> error + 'a list" where
  "filter_throwing p [] = Inr []"
| "filter_throwing p (x # xs) =
     (case p x of
        Inl e \<Rightarrow> Inl e
      | Inr keep \<Rightarrow>
          (case filter_throwing p xs of
             Inl e \<Rightarrow> Inl e
           | Inr ys \<Rightarrow> Inr (if keep then x # ys else ys)))"

text \<open>A row of \<open>SELECT organs.*, users.name as donor_name, users.blood_group as
  donor_blood_group FROM organs JOIN users ON organs.donor_id = users.id\<close>.\<close>

record suggestion =
  sg_organ :: organ
  donor_name :: string
  donor_blood_group :: string

definition availableOrgans :: "db \<Rightarrow> string \<Rightarrow> suggestion list" where
  "availableOrgans s organ_type =
     concat (map (\<lambda>organ. map (\<lambda>u. \<lparr>sg_organ = organ, donor_name = u_name u,
                                     donor_blood_group = u_blood_group u\<rparr>)
                               (filter (\<lambda>u. o_donor_id organ = u_id u) (users s)))
                 (filter (\<lambda>organ. o_organ_type organ = organ_type \<and>
                                  availability_status organ = ''AVAILABLE'')
                         (organs s)))"

definition suggest :: "int \<Rightarrow> db \<Rightarrow> error + suggestion list" where
  "suggest requestId s =
     (case find (\<lambda>r. r_id r = requestId) (organ_requests s) of
        None \<Rightarrow> Inl NotFound
      | Some request \<Rightarrow>
          filter_throwing
            (\<lambda>row. array_includes (compatibleRecipients (donor_blood_group row)) (r_blood_group request))
            (availableOrgans s (r_organ_type request)))"

subsection \<open>POST /admin/matches\<close>

text \<open>
  The handler takes its five values from \<open>req.body\<close>, which \<open>express.json()\<close> has parsed
  and whose fields can hold anything JSON can. A field is modelled as what can stand at the
  place of a value of type \<open>'a\<close>: the value, \<open>null\<close>, a boolean, a plain object (its contents
  are never read), or nothing at all (the field is absent and reads as \<open>undefined\<close>).

  A JSON number is a double. The ids are modelled as the integers of magnitude at most
  \<open>2^53\<close>, which are the integers a double holds exactly and which SQLite stores in an
  INTEGER column as they are. Outside the model are: numbers that are not such integers, a
  string at the place of an id, a number at the place of the organ type, and arrays, which
  the driver spreads over several parameters.
\<close>

typedef safe_integer = "{n :: int. - 9007199254740992 \<le> n \<and> n \<le> 9007199254740992}"
  morphisms int_of safe
  by (rule exI [of _ 0]) simp

datatype 'a body_field = Given 'a | JsonNull | JsonBoolean bool | JsonObject | Absent

record match_body =
  b_donor_id :: "safe_integer body_field"
  b_recipient_id :: "safe_integer body_field"
  b_organ_id :: "safe_integer body_field"
  b_request_id :: "safe_integer body_field"
  b_organ_type :: "string body_field"

text \<open>
  \<open>.run(...)\<close> binds its arguments to the parameters of the statement before it executes
  it. The driver binds numbers, strings and \<open>null\<close>; for a boolean, for \<open>undefined\<close> and for
  a plain object passed to a statement without named parameters it throws, and the statement
  is not executed.
\<close>

fun bind_parameter :: "'a body_field \<Rightarrow> error + 'a option" where
  "bind_parameter (Given v) = Inr (Some v)"
| "bind_parameter JsonNull = Inr None"
| "bind_parameter (JsonBoolean b) = Inl BindError"
| "bind_parameter JsonObject = Inl BindError"
| "bind_parameter Absent = Inl BindError"

text \<open>The three statements of the transaction, in the order of the source. Each returns
  the exception it has thrown, if any, and the database as the statement leaves it.\<close>

definition insert_match :: "match_body \<Rightarrow> string \<Rightarrow> db \<Rightarrow> (error + unit) \<times> db" where
  "insert_match b now s =
     (case bind_parameter (b_donor_id b) of Inl e \<Rightarrow> (Inl e, s) | Inr donor_id \<Rightarrow>
      case bind_parameter (b_recipient_id b) of Inl e \<Rightarrow> (Inl e, s) | Inr recipient_id \<Rightarrow>
      case bind_parameter (b_organ_id b) of Inl e \<Rightarrow> (Inl e, s) | Inr organ_id \<Rightarrow>
      case bind_parameter (b_request_id b) of Inl e \<Rightarrow> (Inl e, s) | Inr request_id \<Rightarrow>
      case bind_parameter (b_organ_type b) of Inl e \<Rightarrow> (Inl e, s) | Inr organ_type \<Rightarrow>
        let i = matches_seq s + 1 in
        (Inr (),
         s\<lparr>matches := matches s @
              [\<lparr>m_id = i, m_donor_id = map_option int_of donor_id,
                m_recipient_id = map_option int_of recipient_id,
                m_organ_id = map_option int_of organ_id,
                m_request_id = map_option int_of request_id,
                m_organ_type = organ_type, matched_on = now, m_status = ''COMPLETED''\<rparr>],
            matches_seq := i\<rparr>))"

text \<open>\<open>WHERE id = ?\<close> with a NULL parameter is true of no row.\<close>

definition update_organ_matched :: "safe_integer body_field \<Rightarrow> db \<Rightarrow> (error + unit) \<times> db" where
  "update_organ_matched organ_id s =
     (case bind_parameter organ_id of
        Inl e \<Rightarrow> (Inl e, s)
      | Inr v \<Rightarrow>
          (Inr (),
           s\<lparr>organs :=
               map (\<lambda>organ. if Some (o_id organ) = map_option int_of v
                            then organ\<lparr>availability_status := ''MATCHED''\<rparr> else organ)
                   (organs s)\<rparr>))"

definition update_request_approved ::
  "safe_integer body_field \<Rightarrow> db \<Rightarrow> (error + unit) \<times> db" where
  "update_request_approved request_id s =
     (case bind_parameter request_id of
        Inl e \<Rightarrow> (Inl e, s)
      | Inr v \<Rightarrow>
          (Inr (),
           s\<lparr>organ_requests :=
               map (\<lambda>r. if Some (r_id r) = map_option int_of v
                        then r\<lparr>r_status := ''APPROVED'',
                               admin_note := Some ''Matched with compatible donor''\<rparr>
                        else r)
                   (organ_requests s)\<rparr>))"

text \<open>The function passed to \<open>db.transaction\<close>: the statements one after the other; an
  exception leaves the function at once, with what the earlier statements have written.\<close>

definition statements :: "match_body \<Rightarrow> string \<Rightarrow> db \<Rightarrow> (error + unit) \<times> db" where
  "statements b now s =
     (case insert_match b now s of
        (Inl e, s1) \<Rightarrow> (Inl e, s1)
      | (Inr u, s1) \<Rightarrow>
          (case update_organ_matched (b_organ_id b) s1 of
             (Inl e, s2) \<Rightarrow> (Inl e, s2)
           | (Inr u, s2) \<Rightarrow> update_request_approved (b_request_id b) s2))"

text \<open>\<open>db.transaction(fn)\<close> of the driver: BEGIN, run the function, COMMIT; when the function
  throws, ROLLBACK to the database as it was at BEGIN and throw again.\<close>

definition transaction ::
  "(db \<Rightarrow> (error + unit) \<times> db) \<Rightarrow> db \<Rightarrow> (error + unit) \<times> db" where
  "transaction fn s =
     (case fn s of
        (Inl e, s') \<Rightarrow> (Inl e, s)
      | (Inr u, s') \<Rightarrow> (Inr u, s'))"

text \<open>The handler: \<open>try { transaction(); res.json({ success: true }) } catch (err)
  { res.status(400).json({ error: err.message }) }\<close>.\<close>

definition allocate :: "match_body \<Rightarrow> string \<Rightarrow> db \<Rightarrow> (error + unit) \<times> db" where
  "allocate b now s =
     (case transaction (statements b now) s of
        (Inl e, s') \<Rightarrow> (Inl BadRequest, s')
      | (Inr u, s') \<Rightarrow> (Inr (), s'))"

text \<open>The bodies all of whose five fields the driver binds, and the SQL value (NULL is
  \<open>None\<close>) that is bound for a field.\<close>

definition binds :: "'a body_field \<Rightarrow> bool" where
  "binds f = (case bind_parameter f of Inl e \<Rightarrow> False | Inr v \<Rightarrow> True)"

definition bindable :: "match_body \<Rightarrow> bool" where
  "bindable b \<longleftrightarrow>
     binds (b_donor_id b) \<and> binds (b_recipient_id b) \<and> binds (b_organ_id b) \<and>
     binds (b_request_id b) \<and> binds (b_organ_type b)"

definition bound_id :: "safe_integer body_field \<Rightarrow> int option" where
  "bound_id f = (case bind_parameter f of Inl e \<Rightarrow> None | Inr v \<Rightarrow> map_option int_of v)"

definition bound_text :: "string body_field \<Rightarrow> string option" where
  "bound_text f = (case bind_parameter f of Inl e \<Rightarrow> None | Inr v \<Rightarrow> v)"

subsection \<open>DELETE /admin/users/:id\<close>

definition delete_user :: "int \<Rightarrow> db \<Rightarrow> db" where
  "delete_user uid s =
     s\<lparr>matches := filter (\<lambda>m. \<not> (m_donor_id m = Some uid \<or> m_recipient_id m = Some uid))
                         (matches s),
       organ_requests := filter (\<lambda>r. r_recipient_id r \<noteq> uid) (organ_requests s),
       organs := filter (\<lambda>organ. o_donor_id organ \<noteq> uid) (organs s),
       users := filter (\<lambda>u. u_id u \<noteq> uid) (users s)\<rparr>"

subsection \<open>The writing operations of the server as one step function\<close>

datatype operation =
    Register register_body
  | PostOrgans int string string string
  | PostRequests int string string string string
  | PostRequestStatus int string "string option"
  | Allocate match_body string
  | DeleteUser int

fun exec :: "operation \<Rightarrow> db \<Rightarrow> db" where
  "exec (Register b) s = snd (register b s)"
| "exec (PostOrgans uid t g now) s = snd (post_organs uid t g now s)"
| "exec (PostRequests uid t g u now) s = snd (post_requests uid t g u now s)"
| "exec (PostRequestStatus rid st note) s = post_request_status rid st note s"
| "exec (Allocate b now) s = snd (allocate b now s)"
| "exec (DeleteUser uid) s = delete_user uid s"

text \<open>A sequence of operations, served one after the other.\<close>

fun run :: "operation list \<Rightarrow> db \<Rightarrow> db" where
  "run [] s = s"
| "run (op # ops) s = run ops (exec op s)"

subsection \<open>Example databases\<close>

text \<open>Two donors with one organ each and two recipients who both ask for a kidney, in the
  shape the seed script produces.\<close>

definition example_db :: db where
  "example_db =
     \<lparr>users =
        [\<lparr>u_id = 2, username = ''donor1'', password = ''h'', u_name = ''John Doe'', age = 28,
          gender = ''Male'', u_blood_group = ''O-'', contact = ''9876543210'', u_role = ''DONOR''\<rparr>,
         \<lparr>u_id = 3, username = ''donor2'', password = ''h'', u_name = ''Jane Smith'', age = 32,
          gender = ''Female'', u_blood_group = ''A+'', contact = ''5556667777'', u_role = ''DONOR''\<rparr>,
         \<lparr>u_id = 4, username = ''recipient1'', password = ''h'', u_name = ''Alice Brown'',
          age = 45, gender = ''Female'', u_blood_group = ''AB+'', contact = ''1112223333'',
          u_role = ''RECIPIENT''\<rparr>,
         \<lparr>u_id = 5, username = ''recipient2'', password = ''h'', u_name = ''Bob Wilson'',
          age = 50, gender = ''Male'', u_blood_group = ''B-'', contact = ''4445556666'',
          u_role = ''RECIPIENT''\<rparr>],
      organs =
        [\<lparr>o_id = 1, o_organ_type = ''KIDNEY'', o_blood_group = ''O-'', o_donor_id = 2,
          availability_status = ''AVAILABLE'', date_added = ''2024-01-01''\<rparr>,
         \<lparr>o_id = 2, o_organ_type = ''LIVER'', o_blood_group = ''A+'', o_donor_id = 3,
          availability_status = ''AVAILABLE'', date_added = ''2024-01-01''\<rparr>],
      organ_requests =
        [\<lparr>r_id = 1, r_recipient_id = 4, r_organ_type = ''KIDNEY'', r_blood_group = ''AB+'',
          urgency_level = ''CRITICAL'', r_status = ''PENDING'', date_requested = ''2024-01-02'',
          admin_note = None\<rparr>,
         \<lparr>r_id = 2, r_recipient_id = 5, r_organ_type = ''KIDNEY'', r_blood_group = ''B-'',
          urgency_level = ''MEDIUM'', r_status = ''PENDING'', date_requested = ''2024-01-02'',
          admin_note = None\<rparr>],
      matches = [],
      users_seq = 5, organs_seq = 2, organ_requests_seq = 2, matches_seq = 0\<rparr>"

text \<open>The kidney of donor 2 for request 1, and the same kidney for request 2.\<close>

definition kidney_for_request1 :: match_body where
  "kidney_for_request1 =
     \<lparr>b_donor_id = Given (safe 2), b_recipient_id = Given (safe 4), b_organ_id = Given (safe 1),
      b_request_id = Given (safe 1), b_organ_type = Given ''KIDNEY''\<rparr>"

definition kidney_for_request2 :: match_body where
  "kidney_for_request2 =
     \<lparr>b_donor_id = Given (safe 2), b_recipient_id = Given (safe 5), b_organ_id = Given (safe 1),
      b_request_id = Given (safe 2), b_organ_type = Given ''KIDNEY''\<rparr>"

text \<open>Bodies whose request id, respectively organ id, references no row.\<close>

definition kidney_for_request99 :: match_body where
  "kidney_for_request99 =
     \<lparr>b_donor_id = Given (safe 2), b_recipient_id = Given (safe 4), b_organ_id = Given (safe 1),
      b_request_id = Given (safe 99), b_organ_type = Given ''KIDNEY''\<rparr>"

definition organ7_for_request1 :: match_body where
  "organ7_for_request1 =
     \<lparr>b_donor_id = Given (safe 2), b_recipient_id = Given (safe 4), b_organ_id = Given (safe 7),
      b_request_id = Given (safe 1), b_organ_type = Given ''KIDNEY''\<rparr>"

text \<open>A body that names the kidney and request 1 and nothing else, and one whose organ type
  is a boolean.\<close>

definition ids_only :: match_body where
  "ids_only =
     \<lparr>b_donor_id = Absent, b_recipient_id = Absent, b_organ_id = Given (safe 1),
      b_request_id = Given (safe 1), b_organ_type = Absent\<rparr>"

definition boolean_organ_type :: match_body where
  "boolean_organ_type =
     \<lparr>b_donor_id = Given (safe 2), b_recipient_id = Given (safe 4), b_organ_id = Given (safe 1),
      b_request_id = Given (safe 1), b_organ_type = JsonBoolean True\<rparr>"

text \<open>A donor who registered with the blood group \<open>constructor\<close> (registration stores
  whatever string it is sent) and then offered a heart, the only one on offer, and a
  recipient who then asked for a heart.\<close>

definition constructor_donor :: register_body where
  "constructor_donor =
     \<lparr>rb_username = ''donor3'', rb_hashedPassword = ''h'', rb_name = ''Max Roe'', rb_age = 40,
      rb_gender = ''Male'', rb_blood_group = ''constructor'', rb_contact = ''0001112222'',
      rb_role = ''DONOR''\<rparr>"

definition constructor_db :: db where
  "constructor_db =
     run [Register constructor_donor,
          PostOrgans 6 ''HEART'' ''O-'' ''2024-01-03'',
          PostRequests 4 ''HEART'' ''AB+'' ''HIGH'' ''2024-01-03''] example_db"

section \<open>Properties\<close>

lemmas handler_defs = register_def post_organs_def post_requests_def post_request_status_def
  delete_user_def

lemmas suggest_defs = suggest_def availableOrgans_def array_includes_def compatibleRecipients_def
  get_property_def bloodCompatibility_def Object_prototype_def

lemmas example_defs = example_db_def kidney_for_request1_def kidney_for_request2_def
  kidney_for_request99_def organ7_for_request1_def ids_only_def boolean_organ_type_def
  constructor_donor_def constructor_db_def

subsection \<open>The filter and the lookup of the request\<close>

lemma filter_throwing_Inr:
  "filter_throwing p xs = Inr ys \<Longrightarrow> ys = filter (\<lambda>x. p x = Inr True) xs"
  by (induction xs arbitrary: ys) (auto split: sum.splits if_splits)

lemma filter_throwing_no_throw:
  "\<forall>x \<in> set xs. \<exists>b. p x = Inr b \<Longrightarrow>
   filter_throwing p xs = Inr (filter (\<lambda>x. p x = Inr True) xs)"
  by (induction xs) (auto split: sum.splits)

lemma filter_throwing_error:
  "filter_throwing p xs = Inl e \<Longrightarrow> \<exists>x \<in> set xs. p x = Inl e"
  by (induction xs) (auto split: sum.splits)

lemma array_includes_Inl: "array_includes v x = Inl e \<Longrightarrow> e = TypeError"
  by (auto simp: array_includes_def split: js_value.splits)

lemma find_request_None:
  "find (\<lambda>r. r_id r = rid) rs = None \<longleftrightarrow> (\<forall>r \<in> set rs. r_id r \<noteq> rid)"
  by (auto simp: find_None_iff)

lemma find_request_Some:
  "find (\<lambda>r. r_id r = rid) rs = Some request \<Longrightarrow> request \<in> set rs \<and> r_id request = rid"
  by (auto simp: find_Some_iff)

subsection \<open>Suggestions\<close>

text \<open>
  Claim C7. Whenever the suggestion handler returns a list for request \<open>rid\<close>, every row of
  the list is an organ of the database whose organ type is the request's organ type, whose
  status is AVAILABLE (so not MATCHED), and whose donor's blood group (taken from the joined
  user row) has a compatibility list that contains the request's blood group.
\<close>

theorem suggest_sound:
  assumes "suggest rid s = Inr rows" and "row \<in> set rows"
  shows "\<exists>request.
           find (\<lambda>r. r_id r = rid) (organ_requests s) = Some request \<and>
           o_organ_type (sg_organ row) = r_organ_type request \<and>
           (\<exists>groups. compatibleRecipients (donor_blood_group row) = StringArray groups \<and>
                     r_blood_group request \<in> set groups) \<and>
           availability_status (sg_organ row) = ''AVAILABLE'' \<and>
           availability_status (sg_organ row) \<noteq> ''MATCHED'' \<and>
           sg_organ row \<in> set (organs s) \<and>
           (\<exists>u \<in> set (users s). u_id u = o_donor_id (sg_organ row) \<and>
                                  donor_blood_group row = u_blood_group u)"
proof -
  from assms(1) obtain request where
    req: "find (\<lambda>r. r_id r = rid) (organ_requests s) = Some request" and
    ft: "filter_throwing
           (\<lambda>row. array_includes (compatibleRecipients (donor_blood_group row))
                                  (r_blood_group request))
           (availableOrgans s (r_organ_type request)) = Inr rows"
    by (auto simp: suggest_def split: option.splits)
  from filter_throwing_Inr [OF ft] assms(2) have
    av: "row \<in> set (availableOrgans s (r_organ_type request))" and
    inc: "array_includes (compatibleRecipients (donor_blood_group row)) (r_blood_group request)
            = Inr True"
    by auto
  from inc have "\<exists>groups. compatibleRecipients (donor_blood_group row) = StringArray groups \<and>
                     r_blood_group request \<in> set groups"
    by (auto simp: array_includes_def split: js_value.splits)
  moreover from av have "o_organ_type (sg_organ row) = r_organ_type request \<and>
      availability_status (sg_organ row) = ''AVAILABLE'' \<and> sg_organ row \<in> set (organs s) \<and>
      (\<exists>u \<in> set (users s). u_id u = o_donor_id (sg_organ row) \<and>
                             donor_blood_group row = u_blood_group u)"
    by (auto simp: availableOrgans_def)
  ultimately show ?thesis using req by auto
qed

text \<open>In the example database the O- donor's kidney is suggested for the AB+ request.\<close>

theorem suggest_sound_witness:
  "suggest 1 example_db =
     Inr [\<lparr>sg_organ = \<lparr>o_id = 1, o_organ_type = ''KIDNEY'', o_blood_group = ''O-'',
                        o_donor_id = 2, availability_status = ''AVAILABLE'',
                        date_added = ''2024-01-01''\<rparr>,
           donor_name = ''John Doe'', donor_blood_group = ''O-''\<rparr>] \<and>
   (\<exists>request.
      find (\<lambda>r. r_id r = 1) (organ_requests example_db) = Some request \<and>
      r_organ_type request = ''KIDNEY'' \<and>
      (\<exists>groups. compatibleRecipients ''O-'' = StringArray groups \<and>
                r_blood_group request \<in> set groups))"
proof -
  let ?row = "\<lparr>sg_organ = \<lparr>o_id = 1, o_organ_type = ''KIDNEY'', o_blood_group = ''O-'',
                            o_donor_id = 2, availability_status = ''AVAILABLE'',
                            date_added = ''2024-01-01''\<rparr>,
               donor_name = ''John Doe'', donor_blood_group = ''O-''\<rparr>"
  have run: "suggest 1 example_db = Inr [?row]"
    by (simp add: example_db_def suggest_defs)
  have mem: "?row \<in> set [?row]" by simp
  from suggest_sound [OF run mem] show ?thesis using run by auto
qed

subsection \<open>Allocation\<close>

text \<open>The integers within the range are what \<open>safe\<close> and \<open>int_of\<close> carry back and forth.\<close>

lemma int_of_safe:
  "- 9007199254740992 \<le> n \<Longrightarrow> n \<le> 9007199254740992 \<Longrightarrow> int_of (safe n) = n"
  by (simp add: safe_inverse)

text \<open>Binding: the only exception is the driver's, and a body is bindable exactly when no
  field throws.\<close>

lemma bind_parameter_Inl: "bind_parameter f = Inl e \<Longrightarrow> e = BindError"
  by (cases f) auto

lemma binds_Inr: "binds f \<Longrightarrow> \<exists>v. bind_parameter f = Inr v"
  by (simp add: binds_def split: sum.splits)

lemma not_binds_Inl: "\<not> binds f \<Longrightarrow> bind_parameter f = Inl BindError"
  by (cases f) (simp_all add: binds_def)

text \<open>The statements on a bindable body, and the first statement on any other body.\<close>

lemma insert_match_bindable:
  assumes "bindable b"
  shows "insert_match b now s =
     (Inr (),
      s\<lparr>matches := matches s @
           [\<lparr>m_id = matches_seq s + 1, m_donor_id = bound_id (b_donor_id b),
             m_recipient_id = bound_id (b_recipient_id b),
             m_organ_id = bound_id (b_organ_id b),
             m_request_id = bound_id (b_request_id b),
             m_organ_type = bound_text (b_organ_type b), matched_on = now,
             m_status = ''COMPLETED''\<rparr>],
         matches_seq := matches_seq s + 1\<rparr>)"
proof -
  from assms obtain d r g q t where
    "bind_parameter (b_donor_id b) = Inr d" "bind_parameter (b_recipient_id b) = Inr r"
    "bind_parameter (b_organ_id b) = Inr g" "bind_parameter (b_request_id b) = Inr q"
    "bind_parameter (b_organ_type b) = Inr t"
    unfolding bindable_def by (blast dest: binds_Inr)
  then show ?thesis
    by (simp add: insert_match_def bound_id_def bound_text_def Let_def)
qed

lemma insert_match_unbindable:
  assumes "\<not> bindable b"
  shows "insert_match b now s = (Inl BindError, s)"
proof -
  have "fst (insert_match b now s) = Inl BindError \<and> snd (insert_match b now s) = s"
    using assms
    by (auto simp: bindable_def insert_match_def Let_def
             dest!: not_binds_Inl dest: bind_parameter_Inl split: sum.splits)
  then show ?thesis by (simp add: prod_eq_iff)
qed

lemma update_organ_matched_binds:
  assumes "binds f"
  shows "update_organ_matched f s =
     (Inr (),
      s\<lparr>organs :=
          map (\<lambda>organ. if Some (o_id organ) = bound_id f
                       then organ\<lparr>availability_status := ''MATCHED''\<rparr> else organ)
              (organs s)\<rparr>)"
  using binds_Inr [OF assms] by (auto simp: update_organ_matched_def bound_id_def)

lemma update_request_approved_binds:
  assumes "binds f"
  shows "update_request_approved f s =
     (Inr (),
      s\<lparr>organ_requests :=
          map (\<lambda>r. if Some (r_id r) = bound_id f
                   then r\<lparr>r_status := ''APPROVED'',
                          admin_note := Some ''Matched with compatible donor''\<rparr>
                   else r)
              (organ_requests s)\<rparr>)"
  using binds_Inr [OF assms] by (auto simp: update_request_approved_def bound_id_def)

lemma statements_unbindable: "\<not> bindable b \<Longrightarrow> statements b now s = (Inl BindError, s)"
  by (simp add: statements_def insert_match_unbindable)


text \<open>What one call of the allocation handler answers and does to each table.\<close>

lemma allocate_unbindable: "\<not> bindable b \<Longrightarrow> allocate b now s = (Inl BadRequest, s)"
  by (simp add: allocate_def transaction_def statements_unbindable)


lemma allocate_response: "bindable b \<Longrightarrow> fst (allocate b now s) = Inr ()"
  by (simp add: allocate_def transaction_def statements_def insert_match_bindable
        update_organ_matched_binds update_request_approved_binds bindable_def)

lemma allocate_success_iff: "fst (allocate b now s) = Inr () \<longleftrightarrow> bindable b"
proof (cases "bindable b")
  case True
  then show ?thesis by (simp add: allocate_response)
next
  case False
  then show ?thesis by (simp add: allocate_unbindable)
qed


lemma allocate_organs:
  "bindable b \<Longrightarrow>
   organs (snd (allocate b now s)) =
     map (\<lambda>organ. if Some (o_id organ) = bound_id (b_organ_id b)
                  then organ\<lparr>availability_status := ''MATCHED''\<rparr> else organ) (organs s)"
  by (simp add: allocate_def transaction_def statements_def insert_match_bindable
        update_organ_matched_binds update_request_approved_binds bindable_def)

lemma allocate_organ_requests:
  "bindable b \<Longrightarrow>
   organ_requests (snd (allocate b now s)) =
     map (\<lambda>r. if Some (r_id r) = bound_id (b_request_id b)
              then r\<lparr>r_status := ''APPROVED'', admin_note := Some ''Matched with compatible donor''\<rparr>
              else r) (organ_requests s)"
  by (simp add: allocate_def transaction_def statements_def insert_match_bindable
        update_organ_matched_binds update_request_approved_binds bindable_def)


text \<open>The example bodies.\<close>

lemma example_bindable:
  "bindable kidney_for_request1" "bindable kidney_for_request2"
  "bindable kidney_for_request99" "bindable organ7_for_request1"
  "\<not> bindable ids_only" "\<not> bindable boolean_organ_type"
  by (simp_all add: bindable_def binds_def example_defs)

lemma example_bound:
  "bound_id (b_organ_id kidney_for_request1) = Some 1"
  "bound_id (b_request_id kidney_for_request1) = Some 1"
  "bound_id (b_donor_id kidney_for_request1) = Some 2"
  "bound_id (b_recipient_id kidney_for_request1) = Some 4"
  "bound_id (b_organ_id kidney_for_request2) = Some 1"
  "bound_id (b_request_id kidney_for_request2) = Some 2"
  "bound_id (b_donor_id kidney_for_request2) = Some 2"
  "bound_id (b_recipient_id kidney_for_request2) = Some 5"
  "bound_id (b_organ_id kidney_for_request99) = Some 1"
  "bound_id (b_request_id kidney_for_request99) = Some 99"
  "bound_id (b_organ_id organ7_for_request1) = Some 7"
  "bound_id (b_request_id organ7_for_request1) = Some 1"
  by (simp_all add: bound_id_def example_defs int_of_safe)













subsection \<open>Lifecycles\<close>

lemma set_map_if:
  "y \<in> set (map (\<lambda>x. if P x then f x else x) xs) \<Longrightarrow>
   (\<exists>x \<in> set xs. P x \<and> y = f x) \<or> (y \<in> set xs \<and> \<not> P y)"
  by (induction xs) (auto split: if_splits)

lemma post_request_status_overwrites:
  assumes "r \<in> set (organ_requests (post_request_status rid st nt s))" and "r_id r = rid"
  shows "r_status r = st \<and> admin_note r = nt"
proof -
  from assms(1) have
    "r \<in> set (map (\<lambda>r. if r_id r = rid then r\<lparr>r_status := st, admin_note := nt\<rparr> else r)
                  (organ_requests s))"
    by (simp add: post_request_status_def)
  from set_map_if [OF this] assms(2)
  obtain q where "r = q\<lparr>r_status := st, admin_note := nt\<rparr>"
    by blast
  then show ?thesis by simp
qed

lemma exec_organ_step:
  assumes "g \<in> set (organs s)" and "op \<noteq> DeleteUser (o_donor_id g)"
  shows "g \<in> set (organs (exec op s)) \<or>
         g\<lparr>availability_status := ''MATCHED''\<rparr> \<in> set (organs (exec op s))"
proof (cases op)
  case (Register b)
  with assms(1) show ?thesis by (simp add: register_def Let_def)
next
  case (PostOrgans uid t bg now)
  with assms(1) show ?thesis by (simp add: post_organs_def Let_def)
next
  case (PostRequests uid t bg u now)
  with assms(1) show ?thesis by (simp add: post_requests_def Let_def)
next
  case (PostRequestStatus rid st adminNote)
  with assms(1) show ?thesis by (simp add: post_request_status_def)
next
  case (Allocate b now)
  show ?thesis
  proof (cases "bindable b")
    case True
    with assms(1) Allocate show ?thesis by (force simp: allocate_organs)
  next
    case False
    with assms(1) Allocate show ?thesis by (simp add: allocate_unbindable)
  qed
next
  case (DeleteUser uid)
  with assms show ?thesis by (simp add: delete_user_def)
qed

lemma exec_matched_organ_stays:
  assumes "g \<in> set (organs s)" and "availability_status g = ''MATCHED''"
    and "op \<noteq> DeleteUser (o_donor_id g)"
  shows "g \<in> set (organs (exec op s))"
proof -
  from assms(2) have "g\<lparr>availability_status := ''MATCHED''\<rparr> = g" by simp
  with exec_organ_step [OF assms(1) assms(3)] show ?thesis by simp
qed

lemma run_matched_organ_stays:
  "g \<in> set (organs s) \<Longrightarrow> availability_status g = ''MATCHED'' \<Longrightarrow>
   DeleteUser (o_donor_id g) \<notin> set ops \<Longrightarrow> g \<in> set (organs (run ops s))"
proof (induction ops arbitrary: s)
  case Nil
  then show ?case by simp
next
  case (Cons op ops)
  from Cons.prems have "g \<in> set (organs (exec op s))"
    by (intro exec_matched_organ_stays) auto
  with Cons show ?case by simp
qed

text \<open>
  Claim C5 says that a request leaves PENDING at most once and that every operation keeps
  the lifecycles one-way. The request-status update writes whatever status it is sent, and
  the allocation approves a request whatever its status. In the example database request 1
  goes from PENDING to APPROVED, back to PENDING, on to REJECTED, and is then approved by an
  allocation.
\<close>

theorem request_lifecycle_counterexample:
  "map r_status (organ_requests example_db) = [''PENDING'', ''PENDING''] \<and>
   map r_status (organ_requests (run [PostRequestStatus 1 ''APPROVED'' None] example_db))
     = [''APPROVED'', ''PENDING''] \<and>
   map r_status (organ_requests (run [PostRequestStatus 1 ''APPROVED'' None,
                                      PostRequestStatus 1 ''PENDING'' None] example_db))
     = [''PENDING'', ''PENDING''] \<and>
   map r_status (organ_requests (run [PostRequestStatus 1 ''APPROVED'' None,
                                      PostRequestStatus 1 ''PENDING'' None,
                                      PostRequestStatus 1 ''REJECTED'' None] example_db))
     = [''REJECTED'', ''PENDING''] \<and>
   map r_status (organ_requests (run [PostRequestStatus 1 ''APPROVED'' None,
                                      PostRequestStatus 1 ''PENDING'' None,
                                      PostRequestStatus 1 ''REJECTED'' None,
                                      Allocate kidney_for_request1 ''2024-01-04''] example_db))
     = [''APPROVED'', ''PENDING'']"
  by (simp add: post_request_status_def allocate_organ_requests example_bindable
        example_bound example_db_def)

text \<open>
  Claim C5 as amended. The status of a donation is one-way: the only change any operation
  makes to a donation row is to set its status to MATCHED, and a MATCHED donation row is
  left as it is by every sequence of operations that does not delete its donor (user
  deletion removes the donor's organs). The status of a request is not guarded: the
  request-status update gives every request with the given id the status and note it is
  sent, and an allocation that succeeds gives every request with the given id the status
  APPROVED, whatever the status was.
\<close>

theorem donation_lifecycle_one_way:
  "(g \<in> set (organs s) \<and> availability_status g = ''MATCHED'' \<and>
      DeleteUser (o_donor_id g) \<notin> set ops \<longrightarrow> g \<in> set (organs (run ops s))) \<and>
   (g \<in> set (organs s) \<and> op \<noteq> DeleteUser (o_donor_id g) \<longrightarrow>
      g \<in> set (organs (exec op s)) \<or>
      g\<lparr>availability_status := ''MATCHED''\<rparr> \<in> set (organs (exec op s))) \<and>
   (\<forall>r \<in> set (organ_requests (exec (PostRequestStatus rid st nt) s)).
      r_id r = rid \<longrightarrow> r_status r = st \<and> admin_note r = nt) \<and>
   (fst (allocate b now s) = Inr () \<longrightarrow>
      (\<forall>r \<in> set (organ_requests (exec (Allocate b now) s)).
         Some (r_id r) = bound_id (b_request_id b) \<longrightarrow> r_status r = ''APPROVED''))"
proof -
  have stays: "g \<in> set (organs s) \<and> availability_status g = ''MATCHED'' \<and>
      DeleteUser (o_donor_id g) \<notin> set ops \<longrightarrow> g \<in> set (organs (run ops s))"
    using run_matched_organ_stays [of g s ops] by simp
  have step: "g \<in> set (organs s) \<and> op \<noteq> DeleteUser (o_donor_id g) \<longrightarrow>
      g \<in> set (organs (exec op s)) \<or>
      g\<lparr>availability_status := ''MATCHED''\<rparr> \<in> set (organs (exec op s))"
    using exec_organ_step [of g s op] by simp
  have overwrite: "\<forall>r \<in> set (organ_requests (exec (PostRequestStatus rid st nt) s)).
      r_id r = rid \<longrightarrow> r_status r = st \<and> admin_note r = nt"
    using post_request_status_overwrites [of _ rid st nt s] by simp
  have approve: "fst (allocate b now s) = Inr () \<longrightarrow>
      (\<forall>r \<in> set (organ_requests (exec (Allocate b now) s)).
         Some (r_id r) = bound_id (b_request_id b) \<longrightarrow> r_status r = ''APPROVED'')"
  proof
    assume "fst (allocate b now s) = Inr ()"
    then have bb: "bindable b" by (simp add: allocate_success_iff)
    show "\<forall>r \<in> set (organ_requests (exec (Allocate b now) s)).
            Some (r_id r) = bound_id (b_request_id b) \<longrightarrow> r_status r = ''APPROVED''"
      by (auto simp: allocate_organ_requests [OF bb])
  qed
  show ?thesis
    by (rule conjI [OF stays conjI [OF step conjI [OF overwrite approve]]])
qed

theorem donation_lifecycle_one_way_witness:
  "\<lparr>o_id = 1, o_organ_type = ''KIDNEY'', o_blood_group = ''O-'', o_donor_id = 2,
     availability_status = ''MATCHED'', date_added = ''2024-01-01''\<rparr>
     \<in> set (organs (run [Allocate kidney_for_request1 ''2024-01-04'',
                          Allocate kidney_for_request2 ''2024-01-05'',
                          PostRequestStatus 1 ''REJECTED'' None,
                          DeleteUser 4]
                     (exec (Allocate kidney_for_request1 ''2024-01-03'') example_db))) \<and>
   hd (organs example_db) \<in> set (organs example_db) \<and>
   (hd (organs example_db))\<lparr>availability_status := ''MATCHED''\<rparr>
     \<in> set (organs (exec (Allocate kidney_for_request1 ''2024-01-03'') example_db)) \<and>
   hd (organ_requests (exec (PostRequestStatus 1 ''REJECTED'' None) example_db))
     \<in> set (organ_requests (exec (PostRequestStatus 1 ''REJECTED'' None) example_db)) \<and>
   r_id (hd (organ_requests (exec (PostRequestStatus 1 ''REJECTED'' None) example_db))) = 1 \<and>
   r_status (hd (organ_requests (exec (PostRequestStatus 1 ''REJECTED'' None) example_db)))
     = ''REJECTED'' \<and>
   hd (organ_requests (exec (Allocate kidney_for_request1 ''2024-01-03'') example_db))
     \<in> set (organ_requests (exec (Allocate kidney_for_request1 ''2024-01-03'') example_db)) \<and>
   fst (allocate kidney_for_request1 ''2024-01-03'' example_db) = Inr () \<and>
   Some (r_id (hd (organ_requests (exec (Allocate kidney_for_request1 ''2024-01-03'')
                                       example_db))))
     = bound_id (b_request_id kidney_for_request1) \<and>
   r_status (hd (organ_requests (exec (Allocate kidney_for_request1 ''2024-01-03'') example_db)))
     = ''APPROVED''"
proof -
  let ?g = "\<lparr>o_id = 1, o_organ_type = ''KIDNEY'', o_blood_group = ''O-'', o_donor_id = 2,
     availability_status = ''MATCHED'', date_added = ''2024-01-01''\<rparr>"
  let ?s = "exec (Allocate kidney_for_request1 ''2024-01-03'') example_db"
  let ?ops = "[Allocate kidney_for_request1 ''2024-01-04'',
               Allocate kidney_for_request2 ''2024-01-05'',
               PostRequestStatus 1 ''REJECTED'' None, DeleteUser 4]"
  let ?rej = "exec (PostRequestStatus 1 ''REJECTED'' None) example_db"
  note seq = donation_lifecycle_one_way [where g = ?g and s = ?s and ops = ?ops]
  note one = donation_lifecycle_one_way
    [where g = "hd (organs example_db)" and s = example_db
       and op = "Allocate kidney_for_request1 ''2024-01-03''"
       and rid = 1 and st = "''REJECTED''" and nt = None
       and b = kidney_for_request1 and now = "''2024-01-03''"]
  have mem: "?g \<in> set (organs ?s)"
    by (simp add: allocate_organs example_bindable example_bound example_db_def)
  have st: "availability_status ?g = ''MATCHED''" by simp
  have ops: "DeleteUser (o_donor_id ?g) \<notin> set ?ops" by simp
  have kept: "?g \<in> set (organs (run ?ops ?s))"
    by (rule mp [OF seq [THEN conjunct1]]) (intro conjI mem st ops)
  have first: "hd (organs example_db) \<in> set (organs example_db)"
    by (simp add: example_defs)
  have not_deleted: "Allocate kidney_for_request1 ''2024-01-03''
                       \<noteq> DeleteUser (o_donor_id (hd (organs example_db)))"
    by simp
  have no_longer: "hd (organs example_db) \<notin> set (organs ?s)"
    by (simp add: allocate_organs example_bindable example_bound example_db_def)
  from mp [OF one [THEN conjunct2, THEN conjunct1]] first not_deleted no_longer
  have matched: "(hd (organs example_db))\<lparr>availability_status := ''MATCHED''\<rparr> \<in> set (organs ?s)"
    by blast
  have rej: "hd (organ_requests ?rej) \<in> set (organ_requests ?rej)"
    "r_id (hd (organ_requests ?rej)) = 1"
    by (simp_all add: post_request_status_def example_defs)
  with one have rejected: "r_status (hd (organ_requests ?rej)) = ''REJECTED''"
    by blast
  have success: "fst (allocate kidney_for_request1 ''2024-01-03'' example_db) = Inr ()"
    by (simp add: allocate_response example_bindable)
  have app: "hd (organ_requests ?s) \<in> set (organ_requests ?s)"
    "Some (r_id (hd (organ_requests ?s))) = bound_id (b_request_id kidney_for_request1)"
    by (simp_all add: allocate_organ_requests example_bindable example_bound example_db_def)
  with one success have approved: "r_status (hd (organ_requests ?s)) = ''APPROVED''"
    by blast
  from kept first matched rej rejected success app approved show ?thesis by blast
qed

subsection \<open>Intake\<close>

text \<open>
  Claim C6 says that intake rejects an organ type, blood group or urgency outside the
  enumerations and persists nothing. Neither handler looks at the values. In the example
  database the organ type \<open>BRAIN\<close> with blood group \<open>XY\<close> is stored as organ 3, and a
  request with urgency \<open>SOMEDAY\<close> is stored as request 3.
\<close>

theorem intake_unvalidated_counterexample:
  "fst (post_organs 2 ''BRAIN'' ''XY'' ''2024-01-04'' example_db) = 3 \<and>
   map o_organ_type (organs (snd (post_organs 2 ''BRAIN'' ''XY'' ''2024-01-04'' example_db)))
     = [''KIDNEY'', ''LIVER'', ''BRAIN''] \<and>
   map o_blood_group (organs (snd (post_organs 2 ''BRAIN'' ''XY'' ''2024-01-04'' example_db)))
     = [''O-'', ''A+'', ''XY''] \<and>
   fst (post_requests 4 ''BRAIN'' ''XY'' ''SOMEDAY'' ''2024-01-04'' example_db) = 3 \<and>
   map urgency_level
     (organ_requests (snd (post_requests 4 ''BRAIN'' ''XY'' ''SOMEDAY'' ''2024-01-04'' example_db)))
     = [''CRITICAL'', ''MEDIUM'', ''SOMEDAY'']"
  by (simp add: post_organs_def post_requests_def Let_def example_defs)

text \<open>
  Claim C6 as amended. Organ registration and request submission validate nothing: every
  organ type, blood group and urgency string is accepted and stored as sent, and the new id
  is returned. Organ registration always appends one Donation with status AVAILABLE, and
  request submission always appends one Request with status PENDING.
\<close>

theorem intake_initial_status:
  "(\<exists>organ. organs (snd (post_organs uid organ_type blood_group now s)) = organs s @ [organ] \<and>
       o_id organ = fst (post_organs uid organ_type blood_group now s) \<and>
       o_organ_type organ = organ_type \<and> o_blood_group organ = blood_group \<and>
       o_donor_id organ = uid \<and> availability_status organ = ''AVAILABLE'') \<and>
   (\<exists>r. organ_requests (snd (post_requests uid organ_type blood_group urgency now s))
            = organ_requests s @ [r] \<and>
       r_id r = fst (post_requests uid organ_type blood_group urgency now s) \<and>
       r_organ_type r = organ_type \<and> r_blood_group r = blood_group \<and>
       urgency_level r = urgency \<and> r_recipient_id r = uid \<and> r_status r = ''PENDING'')"
  by (simp add: post_organs_def post_requests_def Let_def)

subsection \<open>The compatibility table\<close>

text \<open>For the eight blood groups the lookup gives the lists of the table: each is non-empty,
  the one of O- has all eight groups and the one of AB+ only AB+. For a key that is neither
  one of the eight nor a member of \<open>Object.prototype\<close> it gives the empty list.\<close>

lemma compatibleRecipients_valid_groups:
  "compatibleRecipients ''O-'' =
     StringArray [''O-'', ''O+'', ''A-'', ''A+'', ''B-'', ''B+'', ''AB-'', ''AB+'']"
  "compatibleRecipients ''O+'' = StringArray [''O+'', ''A+'', ''B+'', ''AB+'']"
  "compatibleRecipients ''A-'' = StringArray [''A-'', ''A+'', ''AB-'', ''AB+'']"
  "compatibleRecipients ''A+'' = StringArray [''A+'', ''AB+'']"
  "compatibleRecipients ''B-'' = StringArray [''B-'', ''B+'', ''AB-'', ''AB+'']"
  "compatibleRecipients ''B+'' = StringArray [''B+'', ''AB+'']"
  "compatibleRecipients ''AB-'' = StringArray [''AB-'', ''AB+'']"
  "compatibleRecipients ''AB+'' = StringArray [''AB+'']"
  by (simp_all add: compatibleRecipients_def get_property_def bloodCompatibility_def)

lemma compatibleRecipients_unknown:
  assumes "key \<notin> fst ` set bloodCompatibility" and "key \<notin> set Object_prototype"
  shows "compatibleRecipients key = StringArray []"
proof -
  from assms(1) have "map_of bloodCompatibility key = None"
    by (simp add: map_of_eq_None_iff)
  with assms(2) show ?thesis
    by (simp add: compatibleRecipients_def get_property_def)
qed

text \<open>
  Claim C8 says that for any input outside the eight valid groups the compatibility lookup
  gives the empty set rather than failing. The fallback \<open>|| []\<close> is there for that, but the
  key \<open>constructor\<close> is outside the eight groups and the lookup finds the inherited
  \<open>Object.prototype.constructor\<close>: the result is not an empty list, and the membership test
  on it throws a TypeError.
\<close>

theorem compatibleRecipients_inherited_key:
  "''constructor'' \<notin> fst ` set bloodCompatibility \<and>
   compatibleRecipients ''constructor'' = InheritedMember \<and>
   compatibleRecipients ''constructor'' \<noteq> StringArray [] \<and>
   array_includes (compatibleRecipients ''constructor'') ''AB+'' = Inl TypeError"
  by (simp add: suggest_defs)

subsection \<open>Suggestions: the error paths\<close>

text \<open>The handler answers NotFound exactly when no request has the given id, and it answers
  with the empty list when the request exists and every candidate's compatibility test
  returns false.\<close>

lemma suggest_NotFound_iff:
  "suggest rid s = Inl NotFound \<longleftrightarrow> (\<forall>r \<in> set (organ_requests s). r_id r \<noteq> rid)"
proof (cases "find (\<lambda>r. r_id r = rid) (organ_requests s)")
  case None
  then have "suggest rid s = Inl NotFound" by (simp add: suggest_def)
  moreover from None have "\<forall>r \<in> set (organ_requests s). r_id r \<noteq> rid"
    by (simp only: find_request_None)
  ultimately show ?thesis by simp
next
  case (Some request)
  have "suggest rid s \<noteq> Inl NotFound"
  proof
    assume "suggest rid s = Inl NotFound"
    with Some have thrown: "filter_throwing
           (\<lambda>row. array_includes (compatibleRecipients (donor_blood_group row))
                                  (r_blood_group request))
           (availableOrgans s (r_organ_type request)) = Inl NotFound"
      by (simp add: suggest_def)
    from filter_throwing_error [OF thrown] obtain row :: suggestion where
      "array_includes (compatibleRecipients (donor_blood_group row)) (r_blood_group request) =
         Inl NotFound"
      by blast
    then show False by (auto dest: array_includes_Inl)
  qed
  moreover from Some have "\<not> (\<forall>r \<in> set (organ_requests s). r_id r \<noteq> rid)"
    by (auto dest: find_request_Some)
  ultimately show ?thesis by simp
qed

lemma suggest_empty:
  assumes "find (\<lambda>r. r_id r = rid) (organ_requests s) = Some request"
    and "\<forall>row \<in> set (availableOrgans s (r_organ_type request)).
           array_includes (compatibleRecipients (donor_blood_group row)) (r_blood_group request)
             = Inr False"
  shows "suggest rid s = Inr []"
proof -
  let ?p = "\<lambda>row. array_includes (compatibleRecipients (donor_blood_group row))
                                  (r_blood_group request)"
  from assms(2) have "\<forall>row \<in> set (availableOrgans s (r_organ_type request)). \<exists>b. ?p row = Inr b"
    by blast
  from filter_throwing_no_throw [OF this] assms
  show ?thesis by (simp add: suggest_def)
qed

text \<open>
  Claim C9 says that when the request exists and no compatible available donation exists,
  the suggestion handler succeeds with the empty list. In \<open>constructor_db\<close> request 3 asks
  for a heart, the only heart on offer comes from the donor whose blood group is
  \<open>constructor\<close>, which has no entry in the table, so no compatible donation exists; the
  handler does not answer with the empty list but fails with a TypeError (the same lookup
  as in claim C8).
\<close>

theorem suggest_inherited_key_throws:
  "map r_id (organ_requests constructor_db) = [1, 2, 3] \<and>
   map donor_blood_group (availableOrgans constructor_db ''HEART'') = [''constructor''] \<and>
   map_of bloodCompatibility ''constructor'' = None \<and>
   suggest 3 constructor_db = Inl TypeError \<and>
   suggest 3 constructor_db \<noteq> Inr []"
  by (simp add: example_defs register_def post_organs_def post_requests_def Let_def suggest_defs)

subsection \<open>Suggestions: which blood group decides\<close>

lemma filter_throwing_map:
  "filter_throwing p (map h xs) = map_sum id (map h) (filter_throwing (\<lambda>x. p (h x)) xs)"
  by (induction xs) (auto split: sum.splits)

lemma availableOrgans_organ_blood_group:
  "availableOrgans (s\<lparr>organs := map (\<lambda>organ. organ\<lparr>o_blood_group := f organ\<rparr>) (organs s)\<rparr>) t =
     map (\<lambda>row. row\<lparr>sg_organ := (sg_organ row)\<lparr>o_blood_group := f (sg_organ row)\<rparr>\<rparr>)
         (availableOrgans s t)"
proof -
  have "concat (map (\<lambda>organ. map (\<lambda>u. \<lparr>sg_organ = organ, donor_name = u_name u,
                                           donor_blood_group = u_blood_group u\<rparr>)
                               (filter (\<lambda>u. o_donor_id organ = u_id u) us))
                 (filter (\<lambda>organ. o_organ_type organ = t \<and> availability_status organ = ''AVAILABLE'')
                         (map (\<lambda>organ. organ\<lparr>o_blood_group := f organ\<rparr>) os))) =
        map (\<lambda>row. row\<lparr>sg_organ := (sg_organ row)\<lparr>o_blood_group := f (sg_organ row)\<rparr>\<rparr>)
          (concat (map (\<lambda>organ. map (\<lambda>u. \<lparr>sg_organ = organ, donor_name = u_name u,
                                           donor_blood_group = u_blood_group u\<rparr>)
                               (filter (\<lambda>u. o_donor_id organ = u_id u) us))
                 (filter (\<lambda>organ. o_organ_type organ = t \<and> availability_status organ = ''AVAILABLE'')
                         os)))" for us os
    by (induction os) (simp_all add: comp_def)
  then show ?thesis by (simp add: availableOrgans_def)
qed

text \<open>
  Claim C10. The \<open>blood_group\<close> column of the organ rows has no influence on the suggestions:
  rewriting that column in any way (\<open>f\<close> gives each organ row its new value) leaves the
  outcome of the handler the same, error or list, and the listed rows the same apart from
  the rewritten column itself. Only the donor's blood group from the user row is tested.
\<close>

theorem suggest_ignores_organ_blood_group:
  "suggest rid (s\<lparr>organs := map (\<lambda>organ. organ\<lparr>o_blood_group := f organ\<rparr>) (organs s)\<rparr>) =
     map_sum id
       (map (\<lambda>row. row\<lparr>sg_organ := (sg_organ row)\<lparr>o_blood_group := f (sg_organ row)\<rparr>\<rparr>))
       (suggest rid s)"
  by (simp add: suggest_def availableOrgans_organ_blood_group filter_throwing_map
           split: option.splits)

text \<open>In the example database the kidney of the O- donor is suggested for the B- request,
  and it still is when its own column says AB+, a group that could not give to B-.\<close>

theorem suggest_ignores_organ_blood_group_witness:
  "map o_blood_group (organs example_db) = [''O-'', ''A+''] \<and>
   suggest 2 example_db =
     Inr [\<lparr>sg_organ = \<lparr>o_id = 1, o_organ_type = ''KIDNEY'', o_blood_group = ''O-'',
                        o_donor_id = 2, availability_status = ''AVAILABLE'',
                        date_added = ''2024-01-01''\<rparr>,
           donor_name = ''John Doe'', donor_blood_group = ''O-''\<rparr>] \<and>
   suggest 2 (example_db\<lparr>organs := map (\<lambda>organ. organ\<lparr>o_blood_group := ''AB+''\<rparr>)
                                       (organs example_db)\<rparr>) =
     Inr [\<lparr>sg_organ = \<lparr>o_id = 1, o_organ_type = ''KIDNEY'', o_blood_group = ''AB+'',
                        o_donor_id = 2, availability_status = ''AVAILABLE'',
                        date_added = ''2024-01-01''\<rparr>,
           donor_name = ''John Doe'', donor_blood_group = ''O-''\<rparr>]"
proof -
  have before: "suggest 2 example_db =
     Inr [\<lparr>sg_organ = \<lparr>o_id = 1, o_organ_type = ''KIDNEY'', o_blood_group = ''O-'',
                        o_donor_id = 2, availability_status = ''AVAILABLE'',
                        date_added = ''2024-01-01''\<rparr>,
           donor_name = ''John Doe'', donor_blood_group = ''O-''\<rparr>]"
    by (simp add: example_db_def suggest_defs)
  have cols: "map o_blood_group (organs example_db) = [''O-'', ''A+'']"
    by (simp add: example_db_def)
  from suggest_ignores_organ_blood_group
    [where rid = 2 and s = example_db and f = "\<lambda>organ. ''AB+''"]
  show ?thesis unfolding before using cols before by simp
qed

end
